theory Spec2Isabelle
  imports Main "HOL-Library.AList" "HOL-Library.Sublist"
begin

section \<open>Python values of the configuration document\<close>

text \<open>
  \<^verbatim>\<open>cli.py\<close> keeps its state in the object that \<^verbatim>\<open>json.load\<close> returns and hands
  \<^verbatim>\<open>json.dump\<close> an object built from the same parts. The values are Python's images of
  JSON: \<^verbatim>\<open>None\<close>, booleans, integers, strings, lists and dictionaries with string keys.
  A dictionary is an association list in insertion order, as Python keeps it.
  Floating point numbers are left out of the embedding.
\<close>

datatype pyval =
    PNone
  | PBool bool
  | PInt int
  | PStr string
  | PList "pyval list"
  | PDict "(string \<times> pyval) list"

text \<open>The exceptions the program can meet.\<close>

datatype exn =
    TypeError
  | KeyError
  | IndexError
  | FileNotFoundError
  | JSONDecodeError
  | UnicodeDecodeError
  | AuthenticationException
  | SSHException
  | OtherException
  | KeyboardInterrupt

text \<open>
  What the file at \<^verbatim>\<open>CONFIG_PATH\<close> is to \<^verbatim>\<open>open\<close> and \<^verbatim>\<open>json.load\<close>, the two
  calls inside the \<^verbatim>\<open>try\<close> of \<^verbatim>\<open>load_entries\<close>: either one of them raises an
  exception, or \<^verbatim>\<open>json.load\<close> returns a value. A missing file raises
  \<^verbatim>\<open>FileNotFoundError\<close>; text that is not JSON raises \<^verbatim>\<open>json.JSONDecodeError\<close>;
  bytes that are not text in the encoding \<^verbatim>\<open>open\<close> decodes with raise
  \<^verbatim>\<open>UnicodeDecodeError\<close>; anything else the two calls raise is one of the other
  exceptions. \<^verbatim>\<open>json.dump\<close> writes the document that \<^verbatim>\<open>json.load\<close> reads back; both
  belong to Python's library, not to the program.
\<close>

datatype config_file = LoadRaises exn | Document pyval

abbreviation Absent :: config_file where
  "Absent \<equiv> LoadRaises FileNotFoundError"

abbreviation Malformed :: config_file where
  "Malformed \<equiv> LoadRaises JSONDecodeError"

text \<open>The lines the program prints, by the statement that prints them.\<close>

datatype message =
    WarnConfigNotFound
  | ErrConfigCorrupted
  | ErrSaving
  | AllCleared
  | AuthFailed
  | SshConnError
  | ConnectFailed pyval
  | Uploaded string pyval pyval
  | LocalFileNotFound string
  | ErrorOccurred
  | NoConnections
  | Copying string pyval pyval pyval
  | ErrInteractive
  | ExitedByUser
  | Unhandled

section \<open>The profile store: \<^verbatim>\<open>load_entries\<close> and \<^verbatim>\<open>save_entries\<close>\<close>

text \<open>
  \<^verbatim>\<open>key in data\<close> for a string key: membership of the keys of a dictionary, of the
  elements of a list, substring of a string; any other value is not iterable.
\<close>

fun py_in :: "string \<Rightarrow> pyval \<Rightarrow> exn + bool" where
  "py_in k (PDict kvs) = Inr (k \<in> set (map fst kvs))"
| "py_in k (PList xs) = Inr (PStr k \<in> set xs)"
| "py_in k (PStr s) = Inr (sublist k s)"
| "py_in k PNone = Inl TypeError"
| "py_in k (PBool b) = Inl TypeError"
| "py_in k (PInt i) = Inl TypeError"

text \<open>\<^verbatim>\<open>data[key] = v\<close> for a string key: only a dictionary takes it.\<close>

fun py_setitem :: "pyval \<Rightarrow> string \<Rightarrow> pyval \<Rightarrow> exn + pyval" where
  "py_setitem (PDict kvs) k v = Inr (PDict (AList.update k v kvs))"
| "py_setitem (PList xs) k v = Inl TypeError"
| "py_setitem (PStr s) k v = Inl TypeError"
| "py_setitem PNone k v = Inl TypeError"
| "py_setitem (PBool b) k v = Inl TypeError"
| "py_setitem (PInt i) k v = Inl TypeError"

definition default_store :: pyval where
  "default_store = PDict [(''entries'', PList []), (''last_selected_idx'', PInt (- 1))]"

text \<open>
  \<^verbatim>\<open>load_entries()\<close>: the result (an exception that leaves the function, or the value
  returned) and the lines printed. Only \<^verbatim>\<open>FileNotFoundError\<close> and
  \<^verbatim>\<open>json.JSONDecodeError\<close> are caught; every other exception of \<^verbatim>\<open>open\<close> and
  \<^verbatim>\<open>json.load\<close> leaves the function, as does one raised by the two tests on the
  loaded value.
\<close>

definition load_entries :: "config_file \<Rightarrow> (exn + pyval) \<times> message list" where
  "load_entries f =
     (case f of
        LoadRaises FileNotFoundError \<Rightarrow> (Inr default_store, [WarnConfigNotFound])
      | LoadRaises JSONDecodeError \<Rightarrow> (Inr default_store, [ErrConfigCorrupted])
      | LoadRaises x \<Rightarrow> (Inl x, [])
      | Document data \<Rightarrow>
          (case py_in ''entries'' data of
             Inl e \<Rightarrow> (Inl e, [])
           | Inr has_entries \<Rightarrow>
               (case (if \<not> has_entries then py_setitem data ''entries'' (PList [])
                      else Inr data) of
                  Inl e \<Rightarrow> (Inl e, [])
                | Inr data1 \<Rightarrow>
                    (case py_in ''last_selected_idx'' data1 of
                       Inl e \<Rightarrow> (Inl e, [])
                     | Inr has_idx \<Rightarrow>
                         (case (if \<not> has_idx
                                then py_setitem data1 ''last_selected_idx'' (PInt (- 1))
                                else Inr data1) of
                            Inl e \<Rightarrow> (Inl e, [])
                          | Inr data2 \<Rightarrow> (Inr data2, []))))))"

text \<open>
  \<^verbatim>\<open>save_entries(entries, last_selected_idx)\<close>. \<open>writable\<close> says whether
  \<^verbatim>\<open>open(CONFIG_PATH, 'w')\<close> succeeds; when it does not, the exception is caught, a line
  is printed and the file stays as it was. The result is the file afterwards and the
  lines printed.
\<close>

definition save_entries :: "bool \<Rightarrow> pyval \<Rightarrow> pyval \<Rightarrow> config_file \<Rightarrow> config_file \<times> message list" where
  "save_entries writable entries last_selected_idx f =
     (let data = PDict [(''entries'', entries), (''last_selected_idx'', last_selected_idx)]
      in if writable then (Document data, []) else (f, [ErrSaving]))"

section \<open>Reading Python values\<close>

text \<open>
  \<^verbatim>\<open>xs[i]\<close> on a list: a negative index counts from the end, an index outside the list
  raises \<^verbatim>\<open>IndexError\<close>.
\<close>

definition list_index :: "'a list \<Rightarrow> int \<Rightarrow> exn + 'a" where
  "list_index xs i =
     (if 0 \<le> i \<and> i < int (length xs) then Inr (xs ! nat i)
      else if i < 0 \<and> - int (length xs) \<le> i then Inr (xs ! nat (int (length xs) + i))
      else Inl IndexError)"

text \<open>
  \<^verbatim>\<open>v[k]\<close> in general. A boolean index is the integer 0 or 1. The keys of a JSON
  object are strings, so any other hashable key is missing from it, and a list or a
  dictionary used as a key is unhashable.
\<close>

fun py_subscript :: "pyval \<Rightarrow> pyval \<Rightarrow> exn + pyval" where
  "py_subscript (PList xs) (PInt i) = list_index xs i"
| "py_subscript (PList xs) (PBool b) = list_index xs (if b then 1 else 0)"
| "py_subscript (PList xs) k = Inl TypeError"
| "py_subscript (PDict kvs) (PStr k) =
     (case map_of kvs k of None \<Rightarrow> Inl KeyError | Some v \<Rightarrow> Inr v)"
| "py_subscript (PDict kvs) (PList ks) = Inl TypeError"
| "py_subscript (PDict kvs) (PDict ks) = Inl TypeError"
| "py_subscript (PDict kvs) k = Inl KeyError"
| "py_subscript (PStr s) (PInt i) = map_sum id (\<lambda>c. PStr [c]) (list_index s i)"
| "py_subscript (PStr s) (PBool b) =
     map_sum id (\<lambda>c. PStr [c]) (list_index s (if b then 1 else 0))"
| "py_subscript (PStr s) k = Inl TypeError"
| "py_subscript PNone k = Inl TypeError"
| "py_subscript (PBool b) k = Inl TypeError"
| "py_subscript (PInt i) k = Inl TypeError"

text \<open>\<^verbatim>\<open>v == k\<close> for an integer literal \<open>k\<close>.\<close>

fun py_eq_int :: "pyval \<Rightarrow> int \<Rightarrow> bool" where
  "py_eq_int (PInt i) k = (i = k)"
| "py_eq_int (PBool b) k = ((if b then 1 else 0) = k)"
| "py_eq_int v k = False"

text \<open>\<^verbatim>\<open>not v\<close>: the empty containers, zero, \<^verbatim>\<open>False\<close> and \<^verbatim>\<open>None\<close> are false.\<close>

fun py_not :: "pyval \<Rightarrow> bool" where
  "py_not PNone = True"
| "py_not (PBool b) = (\<not> b)"
| "py_not (PInt i) = (i = 0)"
| "py_not (PStr s) = (s = [])"
| "py_not (PList xs) = (xs = [])"
| "py_not (PDict kvs) = (kvs = [])"

section \<open>Effects\<close>

text \<open>The calls into curses, in the order the program makes them.\<close>

datatype attr = A_NORMAL | A_BOLD | A_REVERSE

datatype draw =
    ScrClear
  | ScrAddStr nat nat string attr
  | ScrRefresh
  | ScrKeypad
  | ScrEcho
  | ScrNoEcho
  | ScrRaw
  | ScrCursSet nat
  | ScrEndWin

text \<open>
  What a run does to the world, in order: a printed line, a curses call, the document
  written to \<^verbatim>\<open>CONFIG_PATH\<close>, \<^verbatim>\<open>ssh.connect(server, username, password)\<close>,
  \<^verbatim>\<open>os.path.getsize(filename)\<close>, the progress bar created with its total,
  \<^verbatim>\<open>scp_client.put(filename, remote_path)\<close>, the progress bar set to its total and
  closed, \<^verbatim>\<open>ssh_client.close()\<close>, and \<^verbatim>\<open>traceback.print_exc()\<close>.
\<close>

datatype event =
    Print message
  | Curses draw
  | WriteConfig pyval
  | SshConnect pyval pyval pyval
  | GetSize string
  | ProgressBar nat
  | ScpPut string pyval
  | ProgressDone nat
  | SshClose
  | Traceback

text \<open>
  What the run cannot decide: whether the configuration file can be opened for writing,
  whether \<^verbatim>\<open>ssh.connect\<close> raises, the sizes of the local files that exist, and whether
  \<^verbatim>\<open>scp_client.put\<close> raises.
\<close>

record env =
  config_writable :: bool
  connect_result :: "exn option"
  local_files :: "string \<Rightarrow> nat option"
  put_result :: "exn option"

text \<open>\<^verbatim>\<open>save_entries\<close> and \<^verbatim>\<open>clear_entries\<close> as effects on the file.\<close>

definition do_save :: "env \<Rightarrow> pyval \<Rightarrow> pyval \<Rightarrow> config_file \<Rightarrow> config_file \<times> event list" where
  "do_save e entries last_selected_idx f =
     (case save_entries (config_writable e) entries last_selected_idx f of
        (f', ms) \<Rightarrow>
          (f', (if config_writable e
                then [WriteConfig (PDict [(''entries'', entries),
                                          (''last_selected_idx'', last_selected_idx)])]
                else []) @ map Print ms))"

definition clear_entries :: "env \<Rightarrow> config_file \<Rightarrow> config_file \<times> event list" where
  "clear_entries e f =
     (case do_save e (PList []) (PInt (- 1)) f of
        (f', evs) \<Rightarrow> (f', evs @ [Print AllCleared]))"

section \<open>The transfer: \<^verbatim>\<open>create_ssh_client\<close> and \<^verbatim>\<open>send_file\<close>\<close>

text \<open>
  \<^verbatim>\<open>create_ssh_client\<close> connects first; the three handlers turn an exception into a
  printed line and \<^verbatim>\<open>None\<close>. \<^verbatim>\<open>KeyboardInterrupt\<close> is no \<^verbatim>\<open>Exception\<close> and leaves the
  function. The result is \<open>Inr True\<close> for a client, \<open>Inr False\<close> for \<^verbatim>\<open>None\<close>.
\<close>

definition create_ssh_client :: "env \<Rightarrow> pyval \<Rightarrow> pyval \<Rightarrow> pyval \<Rightarrow> (exn + bool) \<times> event list" where
  "create_ssh_client e server user password =
     (case connect_result e of
        None \<Rightarrow> (Inr True, [SshConnect server user password])
      | Some AuthenticationException \<Rightarrow>
          (Inr False, [SshConnect server user password, Print AuthFailed])
      | Some SSHException \<Rightarrow>
          (Inr False, [SshConnect server user password, Print SshConnError])
      | Some KeyboardInterrupt \<Rightarrow>
          (Inl KeyboardInterrupt, [SshConnect server user password])
      | Some x \<Rightarrow>
          (Inr False, [SshConnect server user password, Print (ConnectFailed server)]))"

text \<open>
  The body of the \<^verbatim>\<open>try\<close> in \<^verbatim>\<open>send_file\<close>: the size of the local file is read
  after the client is connected, and a missing file raises \<^verbatim>\<open>FileNotFoundError\<close>
  there.
\<close>

definition upload :: "env \<Rightarrow> string \<Rightarrow> pyval \<Rightarrow> pyval \<Rightarrow> exn option \<times> event list" where
  "upload e filename ssh_ip remote_path =
     (case local_files e filename of
        None \<Rightarrow> (Some FileNotFoundError, [GetSize filename])
      | Some file_size \<Rightarrow>
          (case put_result e of
             Some x \<Rightarrow> (Some x, [GetSize filename, ProgressBar file_size,
                                  ScpPut filename remote_path])
           | None \<Rightarrow> (None, [GetSize filename, ProgressBar file_size,
                             ScpPut filename remote_path, ProgressDone file_size,
                             Print (Uploaded filename remote_path ssh_ip)])))"

text \<open>
  \<^verbatim>\<open>send_file\<close>: returns at once when there is no client; otherwise runs the upload,
  handles its exception and closes the client in the \<^verbatim>\<open>finally\<close> clause.
\<close>

definition send_file :: "env \<Rightarrow> string \<Rightarrow> pyval \<Rightarrow> pyval \<Rightarrow> pyval \<Rightarrow> pyval \<Rightarrow> exn option \<times> event list" where
  "send_file e filename ssh_ip ssh_user ssh_password remote_path =
     (case create_ssh_client e ssh_ip ssh_user ssh_password of
        (Inl x, evs) \<Rightarrow> (Some x, evs)
      | (Inr False, evs) \<Rightarrow> (None, evs)
      | (Inr True, evs) \<Rightarrow>
          (case upload e filename ssh_ip remote_path of
             (None, evs') \<Rightarrow> (None, evs @ evs' @ [SshClose])
           | (Some FileNotFoundError, evs') \<Rightarrow>
               (None, evs @ evs' @ [Print (LocalFileNotFound filename), SshClose])
           | (Some AuthenticationException, evs') \<Rightarrow>
               (None, evs @ evs' @ [Print AuthFailed, SshClose])
           | (Some KeyboardInterrupt, evs') \<Rightarrow>
               (Some KeyboardInterrupt, evs @ evs' @ [SshClose])
           | (Some x, evs') \<Rightarrow>
               (None, evs @ evs' @ [Print ErrorOccurred, Traceback, SshClose])))"

section \<open>The menu: \<^verbatim>\<open>interactive_select\<close>\<close>

text \<open>
  An entry of the menu is a profile: the dictionary \<^verbatim>\<open>add_new_entry\<close> builds, with
  its four strings.
\<close>

record profile =
  ssh_ip :: string
  ssh_user :: string
  ssh_password :: string
  remote_path :: string

definition profile_doc :: "profile \<Rightarrow> pyval" where
  "profile_doc p =
     PDict [(''ssh_ip'', PStr (ssh_ip p)), (''ssh_user'', PStr (ssh_user p)),
            (''ssh_password'', PStr (ssh_password p)), (''remote_path'', PStr (remote_path p))]"

definition entries_doc :: "profile list \<Rightarrow> pyval" where
  "entries_doc entries = PList (map profile_doc entries)"

text \<open>
  The document \<^verbatim>\<open>save_entries\<close> writes for a list of profiles and an integer index.
\<close>

definition store_doc :: "profile list \<Rightarrow> int \<Rightarrow> pyval" where
  "store_doc entries last_selected_idx =
     PDict [(''entries'', entries_doc entries), (''last_selected_idx'', PInt last_selected_idx)]"

text \<open>The key codes \<^verbatim>\<open>stdscr.getch()\<close> returns for the arrow keys.\<close>

definition KEY_DOWN :: int where "KEY_DOWN = 258"
definition KEY_UP :: int where "KEY_UP = 259"

definition row_text :: "profile \<Rightarrow> string" where
  "row_text entry = ssh_ip entry @ '' - '' @ ssh_user entry @ '' - '' @ remote_path entry"

text \<open>\<^verbatim>\<open>display_menu(selected_idx)\<close>: the curses calls of one redraw.\<close>

definition display_menu :: "profile list \<Rightarrow> int \<Rightarrow> draw list" where
  "display_menu entries selected_idx =
     [ScrClear,
      (if entries = []
       then ScrAddStr 0 0 ''No connections found. Add a new connection'' A_BOLD
       else ScrAddStr 0 0
         ''Select a connection to copy file (Use arrow keys to navigate, Enter to select):''
         A_BOLD)]
     @ map (\<lambda>(idx, entry).
              if int idx = selected_idx
              then ScrAddStr (2 + idx) 2 (''> '' @ row_text entry) A_REVERSE
              else ScrAddStr (2 + idx) 2 (''  '' @ row_text entry) A_NORMAL)
           (enumerate 0 entries)
     @ [ScrAddStr (length entries + 2) 0 ''Press 'n' to add a new connection.'' A_BOLD,
        ScrAddStr (length entries + 3) 0 ''Press 'a' to clear all connections.'' A_BOLD,
        ScrAddStr (length entries + 4) 0 ''Press 'c' to remove the selected connection.'' A_BOLD,
        ScrAddStr (length entries + 5) 0 ''Press 'q' to quit.'' A_BOLD,
        ScrRefresh]"

text \<open>
  What \<^verbatim>\<open>interactive_select\<close> returns: an index, \<^verbatim>\<open>None\<close>, \<^verbatim>\<open>'clear'\<close>,
  \<^verbatim>\<open>('remove', index)\<close> or \<^verbatim>\<open>'quit'\<close>.
\<close>

datatype action = Selected int | AddNew | ClearAll | Remove int | Quit

text \<open>
  One pass through the body of \<^verbatim>\<open>while True\<close> with the key read: the loop goes on
  with a cursor (and redraws), the function returns, or \<^verbatim>\<open>KeyboardInterrupt\<close> is raised.
\<close>

datatype step = Continue int | Return action | Raise exn

definition key_step :: "profile list \<Rightarrow> int \<Rightarrow> int \<Rightarrow> step" where
  "key_step entries selected_idx key =
     (if key = KEY_UP
      then Continue (if selected_idx > 0 then selected_idx - 1 else selected_idx)
      else if key = KEY_DOWN
      then Continue (if selected_idx < int (length entries) - 1 then selected_idx + 1
                     else selected_idx)
      else if key = 13 then Return (Selected selected_idx)
      else if key = 110 then Return AddNew
      else if key = 97 then Return ClearAll
      else if key = 99 then Return (Remove selected_idx)
      else if key = 113 then Return Quit
      else if key = 3 then Raise KeyboardInterrupt
      else Continue selected_idx)"

text \<open>The events of one pass: the redraw at the end of the body, when it is reached.\<close>

definition step_events :: "profile list \<Rightarrow> int \<Rightarrow> int \<Rightarrow> event list" where
  "step_events entries selected_idx key =
     (case key_step entries selected_idx key of
        Continue c \<Rightarrow> map Curses (display_menu entries c)
      | Return a \<Rightarrow> []
      | Raise x \<Rightarrow> [])"

text \<open>
  The loop over the keys typed. When they run out the function is blocked in
  \<^verbatim>\<open>getch\<close>, Browsing with the cursor it has; a returned action comes with the keys
  not yet read. The handler \<^verbatim>\<open>except Exception\<close> of the loop has nothing to catch
  here: \<^verbatim>\<open>KeyboardInterrupt\<close> is no \<^verbatim>\<open>Exception\<close>, and the curses calls are taken
  to succeed (a screen large enough for the menu).
\<close>

datatype menu_result = Returned action "int list" | Raised exn | Waiting int

fun menu_loop :: "profile list \<Rightarrow> int \<Rightarrow> int list \<Rightarrow> menu_result \<times> event list" where
  "menu_loop entries selected_idx [] = (Waiting selected_idx, [])"
| "menu_loop entries selected_idx (key # keys) =
     (case key_step entries selected_idx key of
        Continue c \<Rightarrow>
          (case menu_loop entries c keys of
             (r, evs) \<Rightarrow> (r, step_events entries selected_idx key @ evs))
      | Return a \<Rightarrow> (Returned a keys, [])
      | Raise x \<Rightarrow> (Raised x, []))"

definition interactive_select :: "profile list \<Rightarrow> int \<Rightarrow> int list \<Rightarrow> menu_result \<times> event list" where
  "interactive_select entries last_selected_idx keys =
     (case menu_loop entries last_selected_idx keys of
        (r, evs) \<Rightarrow>
          (r, map Curses (display_menu entries last_selected_idx) @ [Curses ScrKeypad] @ evs))"

section \<open>The driver: \<^verbatim>\<open>remove_entry\<close>, \<^verbatim>\<open>add_new_entry\<close> and \<^verbatim>\<open>application\<close>\<close>

text \<open>\<^verbatim>\<open>remove_entry(entries, idx)\<close>: \<^verbatim>\<open>del entries[idx]\<close> under its guard.\<close>

definition remove_entry :: "'a list \<Rightarrow> int \<Rightarrow> 'a list" where
  "remove_entry entries idx =
     (if 0 \<le> idx \<and> idx < int (length entries)
      then take (nat idx) entries @ drop (Suc (nat idx)) entries
      else entries)"

text \<open>
  The \<^verbatim>\<open>'remove'\<close> branch of \<^verbatim>\<open>application\<close>, up to the new list and the new
  \<^verbatim>\<open>last_selected_idx\<close>.
\<close>

definition remove_selected :: "'a list \<Rightarrow> int \<Rightarrow> int \<Rightarrow> 'a list \<times> int" where
  "remove_selected entries last_selected_idx idx =
     (let entries' = remove_entry entries idx
      in (entries',
          if entries' = [] then - 1
          else min last_selected_idx (int (length entries') - 1)))"

text \<open>
  The first lines of \<^verbatim>\<open>application\<close> after the arguments are parsed: curses is
  set up, the store is loaded, its two parts are read, and a stored index of -1
  becomes 0.
\<close>

definition curses_setup :: "event list" where
  "curses_setup = [Curses ScrRaw, Curses (ScrCursSet 0), Curses ScrClear]"

definition startup :: "config_file \<Rightarrow> (exn + pyval \<times> pyval) \<times> event list" where
  "startup f =
     (case load_entries f of
        (Inl x, ms) \<Rightarrow> (Inl x, curses_setup @ map Print ms)
      | (Inr data, ms) \<Rightarrow>
          (case py_subscript data (PStr ''entries'') of
             Inl x \<Rightarrow> (Inl x, curses_setup @ map Print ms)
           | Inr entries \<Rightarrow>
               (case py_subscript data (PStr ''last_selected_idx'') of
                  Inl x \<Rightarrow> (Inl x, curses_setup @ map Print ms)
                | Inr last_selected_idx \<Rightarrow>
                    (Inr (entries,
                          if py_eq_int last_selected_idx (- 1) then PInt 0
                          else last_selected_idx),
                     curses_setup @ map Print ms))))"

text \<open>
  The fields of \<^verbatim>\<open>entries[last_selected_idx]\<close> in the order the program reads them:
  three for the line it prints, four for the call of \<^verbatim>\<open>send_file\<close>.
\<close>

definition entry_field :: "pyval \<Rightarrow> pyval \<Rightarrow> string \<Rightarrow> exn + pyval" where
  "entry_field entries last_selected_idx k =
     (case py_subscript entries last_selected_idx of
        Inl x \<Rightarrow> Inl x
      | Inr entry \<Rightarrow> py_subscript entry (PStr k))"

definition copy_to :: "env \<Rightarrow> string \<Rightarrow> pyval \<Rightarrow> pyval \<Rightarrow> exn option \<times> event list" where
  "copy_to e filename entries last_selected_idx =
     (case entry_field entries last_selected_idx ''ssh_ip'' of
        Inl x \<Rightarrow> (Some x, [])
      | Inr ip \<Rightarrow>
     (case entry_field entries last_selected_idx ''ssh_user'' of
        Inl x \<Rightarrow> (Some x, [])
      | Inr user \<Rightarrow>
     (case entry_field entries last_selected_idx ''remote_path'' of
        Inl x \<Rightarrow> (Some x, [])
      | Inr path \<Rightarrow>
     (case entry_field entries last_selected_idx ''ssh_password'' of
        Inl x \<Rightarrow> (Some x, [Print (Copying filename ip user path)])
      | Inr password \<Rightarrow>
          (case send_file e filename ip user password path of
             (r, evs) \<Rightarrow> (r, Print (Copying filename ip user path) # evs))))))"

text \<open>The branch \<^verbatim>\<open>if args.quiet\<close> of \<^verbatim>\<open>application\<close>.\<close>

definition quiet_mode :: "env \<Rightarrow> string \<Rightarrow> pyval \<Rightarrow> pyval \<Rightarrow> exn option \<times> event list" where
  "quiet_mode e filename entries last_selected_idx =
     (if py_not entries then (None, [Curses ScrEndWin, Print NoConnections])
      else (case copy_to e filename entries last_selected_idx of
              (r, evs) \<Rightarrow> (r, Curses ScrEndWin # evs)))"

text \<open>
  \<^verbatim>\<open>application\<close> run with \<^verbatim>\<open>--quiet\<close>: what it raises, if anything, the
  configuration file afterwards, and its events.
\<close>

definition application_quiet :: "env \<Rightarrow> string \<Rightarrow> config_file \<Rightarrow> exn option \<times> config_file \<times> event list" where
  "application_quiet e filename f =
     (case startup f of
        (Inl x, evs) \<Rightarrow> (Some x, f, evs)
      | (Inr (entries, last_selected_idx), evs) \<Rightarrow>
          (case quiet_mode e filename entries last_selected_idx of
             (r, evs') \<Rightarrow> (r, f, evs @ evs')))"


text \<open>
  \<^verbatim>\<open>add_new_entry\<close> reads four fields in turn. \<open>lines\<close> holds what
  \<^verbatim>\<open>stdscr.getstr(...).decode('utf-8').strip()\<close> evaluates to for each field still to be
  typed; when they run out the function is blocked in \<^verbatim>\<open>getstr\<close>. The result is the
  new entry with the fields left over, and the curses calls made.
\<close>

definition prompt :: "nat \<Rightarrow> string \<Rightarrow> event" where
  "prompt row s = Curses (ScrAddStr row 0 s A_NORMAL)"

definition add_heading :: "event list" where
  "add_heading =
     [Curses ScrClear,
      Curses (ScrAddStr 0 0
        ''Enter new ssh connection (Format: IP, User, Password, Remote Path):'' A_BOLD),
      Curses ScrRefresh]"

fun add_new_entry :: "string list \<Rightarrow> (profile \<times> string list) option \<times> event list" where
  "add_new_entry (ip # user # password # path # rest) =
     (Some (\<lparr>ssh_ip = ip, ssh_user = user, ssh_password = password, remote_path = path\<rparr>,
            rest),
      add_heading @
      [prompt 2 ''Enter SSH server IP address: '', Curses ScrEcho,
       prompt 5 ''Enter SSH username: '',
       prompt 8 ''Enter SSH password: '', Curses ScrNoEcho,
       prompt 11 ''Enter remote path to upload the file (e.g., /remote/path/): '',
       Curses ScrEcho])"
| "add_new_entry [ip, user, password] =
     (None,
      add_heading @
      [prompt 2 ''Enter SSH server IP address: '', Curses ScrEcho,
       prompt 5 ''Enter SSH username: '',
       prompt 8 ''Enter SSH password: '', Curses ScrNoEcho,
       prompt 11 ''Enter remote path to upload the file (e.g., /remote/path/): '',
       Curses ScrEcho])"
| "add_new_entry [ip, user] =
     (None,
      add_heading @
      [prompt 2 ''Enter SSH server IP address: '', Curses ScrEcho,
       prompt 5 ''Enter SSH username: '',
       prompt 8 ''Enter SSH password: '', Curses ScrNoEcho])"
| "add_new_entry [ip] =
     (None,
      add_heading @
      [prompt 2 ''Enter SSH server IP address: '', Curses ScrEcho,
       prompt 5 ''Enter SSH username: ''])"
| "add_new_entry [] =
     (None, add_heading @ [prompt 2 ''Enter SSH server IP address: '', Curses ScrEcho])"

text \<open>
  How a run of the interactive loop ends: \<^verbatim>\<open>application\<close> returns, an exception leaves
  it, or the keys typed have run out and the program waits for the next one.
\<close>

datatype outcome = Finished | Uncaught exn | AwaitingInput

text \<open>The one-line screens shown after clearing and removing.\<close>

definition notice :: "string \<Rightarrow> event list" where
  "notice s = [Curses ScrClear, Curses (ScrAddStr 0 0 s A_NORMAL), Curses ScrRefresh]"

text \<open>
  The loop \<^verbatim>\<open>while True\<close> of \<^verbatim>\<open>application\<close> and the save after it, on a list of
  profiles and an integer index. Each pass takes at least the key that ended the menu,
  so the keys still to be read get fewer. The key read by \<^verbatim>\<open>stdscr.getch()\<close> after a
  notice is dropped whatever it is.
\<close>

function interactive_loop ::
  "env \<Rightarrow> string \<Rightarrow> profile list \<Rightarrow> int \<Rightarrow> int list \<Rightarrow> string list \<Rightarrow> config_file
     \<Rightarrow> outcome \<times> config_file \<times> event list" where
  "interactive_loop e filename entries last_selected_idx keys lines f =
     (case interactive_select entries last_selected_idx keys of
        (Waiting c, evs) \<Rightarrow> (AwaitingInput, f, evs)
      | (Raised x, evs) \<Rightarrow> (Uncaught x, f, evs)
      | (Returned Quit rest, evs) \<Rightarrow>
          (case do_save e (entries_doc entries) (PInt last_selected_idx) f of
             (f1, evs1) \<Rightarrow> (Finished, f1, evs @ evs1))
      | (Returned ClearAll rest, evs) \<Rightarrow>
          (case clear_entries e f of
             (f1, evs1) \<Rightarrow>
               (case rest of
                  [] \<Rightarrow> (AwaitingInput, f1,
                         evs @ evs1 @ notice ''All connections have been cleared.'')
                | k # rest' \<Rightarrow>
                    (case do_save e (PList []) (PInt (- 1)) f1 of
                       (f2, evs2) \<Rightarrow>
                         (case interactive_loop e filename [] (- 1) rest' lines f2 of
                            (r, f3, evs3) \<Rightarrow>
                              (r, f3, evs @ evs1
                                 @ notice ''All connections have been cleared.''
                                 @ evs2 @ evs3)))))
      | (Returned (Remove idx) rest, evs) \<Rightarrow>
          (case remove_selected entries last_selected_idx idx of
             (entries', last') \<Rightarrow>
               (case rest of
                  [] \<Rightarrow> (AwaitingInput, f, evs @ notice ''Connection has been removed.'')
                | k # rest' \<Rightarrow>
                    (case do_save e (entries_doc entries') (PInt last') f of
                       (f1, evs1) \<Rightarrow>
                         (case interactive_loop e filename entries' last' rest' lines f1 of
                            (r, f2, evs2) \<Rightarrow>
                              (r, f2, evs @ notice ''Connection has been removed.''
                                 @ evs1 @ evs2)))))
      | (Returned AddNew rest, evs) \<Rightarrow>
          (case add_new_entry lines of
             (None, evs1) \<Rightarrow> (AwaitingInput, f, evs @ evs1)
           | (Some (new_entry, lines'), evs1) \<Rightarrow>
               (case do_save e (entries_doc (entries @ [new_entry]))
                       (PInt (int (length (entries @ [new_entry])) - 1)) f of
                  (f1, evs2) \<Rightarrow>
                    (case interactive_loop e filename (entries @ [new_entry])
                            (int (length (entries @ [new_entry])) - 1) rest lines' f1 of
                       (r, f2, evs3) \<Rightarrow> (r, f2, evs @ evs1 @ evs2 @ evs3))))
      | (Returned (Selected idx) rest, evs) \<Rightarrow>
          (case do_save e (entries_doc entries) (PInt idx) f of
             (f1, evs1) \<Rightarrow>
               (case copy_to e filename (entries_doc entries) (PInt idx) of
                  (r, evs2) \<Rightarrow>
                    ((case r of None \<Rightarrow> Finished | Some x \<Rightarrow> Uncaught x), f1,
                     evs @ evs1 @ [Curses ScrEndWin] @ evs2))))"
  by pat_completeness auto
termination
proof (relation "measure (\<lambda>(e, filename, entries, last_selected_idx, keys, lines, f). length keys)")
  have menu: "length rest < length keys"
    if "menu_loop entries c keys = (Returned a rest, evs)"
    for entries c keys a rest evs
    using that
  proof (induction keys arbitrary: c evs)
    case Nil
    then show ?case by simp
  next
    case (Cons k ks)
    then show ?case by (fastforce split: step.splits prod.splits)
  qed
  have sel: "length rest < length keys"
    if "(Returned a rest, evs) = interactive_select entries c keys"
    for entries c keys a rest evs
    using that [symmetric] menu
    by (auto simp: interactive_select_def split: prod.splits)
  show "wf (measure (\<lambda>(e, filename, entries, last_selected_idx, keys, lines, f). length keys))"
    by simp
  show "((e, filename, [], - 1, rest', lines, f2), e, filename, entries, last_selected_idx, keys, lines, f)
          \<in> measure (\<lambda>(e, filename, entries, last_selected_idx, keys, lines, f). length keys)"
    if "(x, evs) = interactive_select entries last_selected_idx keys"
      and "x = Returned a rest" and "rest = k # rest'"
    for e filename entries last_selected_idx keys lines f x evs a rest k rest' f2
    using sel [of a rest evs entries last_selected_idx keys] that by simp
  show "((e, filename, entries', last', rest', lines, f1), e, filename, entries, last_selected_idx, keys, lines, f)
          \<in> measure (\<lambda>(e, filename, entries, last_selected_idx, keys, lines, f). length keys)"
    if "(x, evs) = interactive_select entries last_selected_idx keys"
      and "x = Returned a rest" and "rest = k # rest'"
    for e filename entries last_selected_idx keys lines f x evs a rest k rest' f1 entries' last'
    using sel [of a rest evs entries last_selected_idx keys] that by simp
  show "((e, filename, entries @ [new_entry], int (length (entries @ [new_entry])) - 1, rest, lines', f1),
          e, filename, entries, last_selected_idx, keys, lines, f)
          \<in> measure (\<lambda>(e, filename, entries, last_selected_idx, keys, lines, f). length keys)"
    if "(x, evs) = interactive_select entries last_selected_idx keys"
      and "x = Returned a rest"
    for e filename entries last_selected_idx keys lines f x evs a rest new_entry lines' f1
    using sel [of a rest evs entries last_selected_idx keys] that by simp
qed

declare interactive_loop.simps [simp del]

section \<open>Properties of runs, and examples\<close>

text \<open>An event that opens a network session, and one that writes the configuration file.\<close>

definition is_connect :: "event \<Rightarrow> bool" where
  "is_connect ev = (case ev of SshConnect server user password \<Rightarrow> True | _ \<Rightarrow> False)"

definition is_write :: "event \<Rightarrow> bool" where
  "is_write ev = (case ev of WriteConfig d \<Rightarrow> True | _ \<Rightarrow> False)"

text \<open>
  A run looks at the local file (\<^verbatim>\<open>os.path.getsize\<close>) and has opened a session before
  it did.
\<close>

definition session_before_check :: "string \<Rightarrow> event list \<Rightarrow> bool" where
  "session_before_check filename evs =
     (GetSize filename \<in> set evs
      \<and> list_ex is_connect (takeWhile (\<lambda>ev. ev \<noteq> GetSize filename) evs))"

text \<open>
  The cursor the driver hands to the menu is sound for a list: any cursor for the empty
  list, an index of the list otherwise.
\<close>

definition cursor_ok :: "profile list \<Rightarrow> int \<Rightarrow> bool" where
  "cursor_ok entries c = (entries = [] \<or> (0 \<le> c \<and> c < int (length entries)))"

definition profile_a :: profile where
  "profile_a =
     \<lparr>ssh_ip = ''10.0.0.5'', ssh_user = ''svc'', ssh_password = ''x'',
      remote_path = ''/tmp/out''\<rparr>"

definition profile_b :: profile where
  "profile_b =
     \<lparr>ssh_ip = ''10.0.0.6'', ssh_user = ''ops'', ssh_password = ''y'',
      remote_path = ''/srv/in''\<rparr>"

definition profile_c :: profile where
  "profile_c =
     \<lparr>ssh_ip = ''build.local'', ssh_user = ''ci'', ssh_password = ''z'',
      remote_path = ''/var/drop''\<rparr>"

text \<open>A world where the server accepts the connection and no local file exists.\<close>

definition no_local_files :: env where
  "no_local_files =
     \<lparr>config_writable = True, connect_result = None, local_files = (\<lambda>path. None),
      put_result = None\<rparr>"

section \<open>The store\<close>

lemma save_entries_writable:
  "save_entries True entries idx f =
     (Document (PDict [(''entries'', entries), (''last_selected_idx'', idx)]), [])"
  by (simp add: save_entries_def)

lemma save_entries_unwritable: "save_entries False entries idx f = (f, [ErrSaving])"
  by (simp add: save_entries_def)

lemma do_save_writable:
  "config_writable e \<Longrightarrow>
     do_save e entries idx f =
       (Document (PDict [(''entries'', entries), (''last_selected_idx'', idx)]),
        [WriteConfig (PDict [(''entries'', entries), (''last_selected_idx'', idx)])])"
  by (simp add: do_save_def save_entries_def)

lemma load_entries_complete:
  "load_entries (Document (PDict [(''entries'', entries), (''last_selected_idx'', idx)])) =
     (Inr (PDict [(''entries'', entries), (''last_selected_idx'', idx)]), [])"
  by (simp add: load_entries_def)


lemma profile_doc_inj: "profile_doc p = profile_doc q \<Longrightarrow> p = q"
  by (cases p, cases q) (simp add: profile_doc_def)

lemma entries_doc_inj: "entries_doc ps = entries_doc qs \<Longrightarrow> ps = qs"
  unfolding entries_doc_def
  by (simp add: inj_on_def profile_doc_inj inj_map_eq_map[of profile_doc, unfolded inj_on_def])

lemma py_not_entries_doc: "py_not (entries_doc ps) = (ps = [])"
  by (simp add: entries_doc_def)



text \<open>
  Claim C6: when the file can be written, \<^verbatim>\<open>load_entries\<close> right after
  \<^verbatim>\<open>save_entries\<close> returns the document of the very list of profiles and index that
  were saved, prints nothing, and the two parts read back from it are that list and
  that index, whatever the file held before.
\<close>

theorem save_then_load:
  assumes "writable"
  shows "load_entries (fst (save_entries writable (entries_doc ps) (PInt i) f))
           = (Inr (store_doc ps i), [])
         \<and> py_subscript (store_doc ps i) (PStr ''entries'') = Inr (entries_doc ps)
         \<and> py_subscript (store_doc ps i) (PStr ''last_selected_idx'') = Inr (PInt i)"
  using assms
  by (simp add: save_entries_writable load_entries_complete store_doc_def)

theorem save_then_load_witness:
  "load_entries (fst (save_entries True (entries_doc [profile_a, profile_b]) (PInt 1) Malformed))
     = (Inr (store_doc [profile_a, profile_b] 1), [])
   \<and> py_subscript (store_doc [profile_a, profile_b] 1) (PStr ''entries'')
       = Inr (entries_doc [profile_a, profile_b])
   \<and> py_subscript (store_doc [profile_a, profile_b] 1) (PStr ''last_selected_idx'')
       = Inr (PInt 1)"
  using save_then_load [of True "[profile_a, profile_b]" 1 Malformed] by simp

section \<open>The transfer\<close>

lemma create_ssh_client_no_write:
  "create_ssh_client e server user password = (r, evs) \<Longrightarrow> \<not> list_ex is_write evs"
  by (auto simp: create_ssh_client_def is_write_def split: option.splits exn.splits)

lemma upload_no_write:
  "upload e filename ip path = (r, evs) \<Longrightarrow> \<not> list_ex is_write evs"
  by (auto simp: upload_def is_write_def split: option.splits)

lemma send_file_no_write:
  assumes "send_file e filename ip user password path = (r, evs)"
  shows "\<not> list_ex is_write evs"
proof -
  obtain cr cevs where c: "create_ssh_client e ip user password = (cr, cevs)"
    by (cases "create_ssh_client e ip user password")
  obtain ur uevs where u: "upload e filename ip path = (ur, uevs)"
    by (cases "upload e filename ip path")
  have 1: "\<not> list_ex is_write cevs" using c by (rule create_ssh_client_no_write)
  have 2: "\<not> list_ex is_write uevs" using u by (rule upload_no_write)
  show ?thesis
    using assms c u 1 2
    by (auto simp: send_file_def is_write_def
        split: sum.splits bool.splits option.splits exn.splits)
qed

text \<open>
  Claim C2, as the program has it: for an upload whose local file does not exist,
  \<^verbatim>\<open>send_file\<close> first tries to open the session. When the session opens, the missing
  file is found next, "file not found" is printed, nothing is uploaded and the session
  is closed. When the session does not open, the connection error is printed and the
  local file is never looked at.
\<close>

theorem missing_file_after_connect:
  assumes "local_files e filename = None"
  shows "send_file e filename ip user password path =
           (case connect_result e of
              None \<Rightarrow>
                (None, [SshConnect ip user password, GetSize filename,
                        Print (LocalFileNotFound filename), SshClose])
            | Some x \<Rightarrow>
                (if x = KeyboardInterrupt then Some KeyboardInterrupt else None,
                 SshConnect ip user password #
                 (if x = AuthenticationException then [Print AuthFailed]
                  else if x = SSHException then [Print SshConnError]
                  else if x = KeyboardInterrupt then []
                  else [Print (ConnectFailed ip)])))"
  using assms
  by (cases "connect_result e")
     (auto simp: send_file_def create_ssh_client_def upload_def split: exn.splits)

theorem missing_file_after_connect_witness:
  "local_files no_local_files ''build.tar'' = None
   \<and> send_file no_local_files ''build.tar'' (PStr ''h'') (PStr ''u'') (PStr ''p'') (PStr ''/r'')
       = (None, [SshConnect (PStr ''h'') (PStr ''u'') (PStr ''p''), GetSize ''build.tar'',
                 Print (LocalFileNotFound ''build.tar''), SshClose])"
  using missing_file_after_connect [of no_local_files "''build.tar''" "PStr ''h''" "PStr ''u''"
      "PStr ''p''" "PStr ''/r''"]
  by (simp add: no_local_files_def)

text \<open>
  Claim C2 as stated fails: with no file \<^verbatim>\<open>build.tar\<close> on disk and a server that
  accepts the connection, the session is opened before the file is looked at.
\<close>

theorem missing_file_counterexample:
  "local_files no_local_files ''build.tar'' = None
   \<and> send_file no_local_files ''build.tar'' (PStr ''10.0.0.5'') (PStr ''svc'') (PStr ''x'')
         (PStr ''/tmp/out'')
       = (None, [SshConnect (PStr ''10.0.0.5'') (PStr ''svc'') (PStr ''x''),
                 GetSize ''build.tar'', Print (LocalFileNotFound ''build.tar''), SshClose])
   \<and> session_before_check ''build.tar''
        (snd (send_file no_local_files ''build.tar'' (PStr ''10.0.0.5'') (PStr ''svc'')
           (PStr ''x'') (PStr ''/tmp/out'')))"
  by (simp add: no_local_files_def send_file_def create_ssh_client_def upload_def
        session_before_check_def is_connect_def)

section \<open>The menu\<close>

lemma display_menu_nonempty: "display_menu entries c \<noteq> []"
  by (simp add: display_menu_def)

lemma interactive_select_enter:
  "interactive_select entries c (13 # keys) =
     (Returned (Selected c) keys, map Curses (display_menu entries c) @ [Curses ScrKeypad])"
  by (simp add: interactive_select_def key_step_def KEY_UP_def KEY_DOWN_def)

lemma interactive_select_remove:
  "interactive_select entries c (99 # keys) =
     (Returned (Remove c) keys, map Curses (display_menu entries c) @ [Curses ScrKeypad])"
  by (simp add: interactive_select_def key_step_def KEY_UP_def KEY_DOWN_def)

lemma interactive_select_no_keys:
  "interactive_select entries c [] =
     (Waiting c, map Curses (display_menu entries c) @ [Curses ScrKeypad])"
  by (simp add: interactive_select_def)

lemma key_step_in_range:
  "0 \<le> c \<Longrightarrow> c < int (length entries) \<Longrightarrow> key_step entries c key = Continue c'
     \<Longrightarrow> 0 \<le> c' \<and> c' < int (length entries)"
  by (auto simp: key_step_def split: if_splits)

lemma key_step_returns_cursor:
  "key_step entries c key = Return a \<Longrightarrow> a = Selected c' \<or> a = Remove c' \<Longrightarrow> c' = c"
  by (auto simp: key_step_def split: if_splits)

lemma menu_loop_in_range:
  "0 \<le> c \<Longrightarrow> c < int (length entries) \<Longrightarrow> menu_loop entries c keys = (r, evs)
     \<Longrightarrow> r = Waiting c' \<or> r = Returned (Selected c') rest \<or> r = Returned (Remove c') rest
     \<Longrightarrow> 0 \<le> c' \<and> c' < int (length entries)"
proof (induction keys arbitrary: c evs)
  case Nil
  then show ?case by auto
next
  case (Cons key keys)
  show ?case
  proof (cases "key_step entries c key")
    case (Continue d)
    with Cons.prems(1,2) have d: "0 \<le> d" "d < int (length entries)"
      using key_step_in_range by blast+
    obtain r' evs' where "menu_loop entries d keys = (r', evs')"
      by (cases "menu_loop entries d keys")
    with Continue Cons.prems(3) have loop: "menu_loop entries d keys = (r, evs')" by simp
    from Cons.IH [OF d loop Cons.prems(4)] show ?thesis .
  next
    case (Return a)
    with Cons.prems(3) have r: "r = Returned a keys" by simp
    with Cons.prems(4) have "a = Selected c' \<or> a = Remove c'" by auto
    with Return have "c' = c" using key_step_returns_cursor by blast
    with Cons.prems(1,2) show ?thesis by simp
  next
    case (Raise x)
    with Cons.prems(3,4) show ?thesis by auto
  qed
qed

text \<open>
  Claim C1, as the program has it: with an empty list and the cursor at -1 or 0 (what
  the driver passes for an empty list), Up and Down leave the cursor where it is, and
  \<open>c\<close> does return \<^verbatim>\<open>('remove', cursor)\<close>; \<^verbatim>\<open>remove_entry\<close> finds the index out of
  range, so the driver's list stays empty and its index becomes -1.
\<close>

theorem empty_list_keys:
  assumes "c = - 1 \<or> c = 0"
  shows "key_step [] c KEY_UP = Continue c
         \<and> key_step [] c KEY_DOWN = Continue c
         \<and> key_step [] c 99 = Return (Remove c)
         \<and> fst (interactive_select [] c (99 # keys)) = Returned (Remove c) keys
         \<and> remove_selected ([] :: profile list) last_selected_idx c = ([], - 1)"
  using assms
  by (auto simp: key_step_def KEY_UP_def KEY_DOWN_def interactive_select_def
        remove_selected_def remove_entry_def split: prod.splits)

theorem empty_list_keys_witness:
  "((0::int) = - 1 \<or> (0::int) = 0)
   \<and> key_step [] 0 KEY_UP = Continue 0
   \<and> key_step [] 0 KEY_DOWN = Continue 0
   \<and> key_step [] 0 99 = Return (Remove 0)
   \<and> fst (interactive_select [] 0 (99 # [32])) = Returned (Remove 0) [32]
   \<and> remove_selected ([] :: profile list) 0 0 = ([], - 1)"
  using empty_list_keys [of 0 "[32]" 0] by simp

text \<open>
  Claim C1 as stated fails: on the empty list Enter (13) returns the cursor as a
  selection and \<open>c\<close> (99) returns a removal request.
\<close>

theorem empty_list_keys_counterexample:
  "fst (interactive_select [] 0 [13]) = Returned (Selected 0) []
   \<and> fst (interactive_select [] 0 [99]) = Returned (Remove 0) []"
  by (simp add: interactive_select_enter interactive_select_remove)

text \<open>
  Claim C4: for a non-empty list and an initial cursor that is an index of it, whatever
  keys are typed, the cursor the menu is left Browsing with lies in \<open>[0, length - 1]\<close>,
  and so does the cursor it returns with a selection or a removal request.
\<close>

theorem cursor_stays_in_range:
  assumes "entries \<noteq> []" and "0 \<le> c0" and "c0 < int (length entries)"
    and "fst (interactive_select entries c0 keys) = r"
    and "r = Waiting c \<or> r = Returned (Selected c) rest \<or> r = Returned (Remove c) rest"
  shows "0 \<le> c \<and> c \<le> int (length entries) - 1"
proof -
  obtain r' evs where loop: "menu_loop entries c0 keys = (r', evs)"
    by (cases "menu_loop entries c0 keys")
  with assms(4) have "r' = r" by (simp add: interactive_select_def)
  with menu_loop_in_range [OF assms(2,3) loop, of c rest] assms(5) show ?thesis by auto
qed

theorem cursor_stays_in_range_witness:
  "[profile_a, profile_b] \<noteq> []
   \<and> (0::int) \<le> 0 \<and> 0 < int (length [profile_a, profile_b])
   \<and> fst (interactive_select [profile_a, profile_b] 0 [258, 258, 258, 259, 259, 120, 258])
       = Waiting 1
   \<and> (0::int) \<le> 1 \<and> (1::int) \<le> int (length [profile_a, profile_b]) - 1"
  using cursor_stays_in_range [of "[profile_a, profile_b]" 0
      "[258, 258, 258, 259, 259, 120, 258]" "Waiting 1" 1 "[]"]
  by (simp add: interactive_select_def key_step_def KEY_UP_def KEY_DOWN_def split: prod.splits)

text \<open>
  Claim C5, as the program has it: a key that is none of Up, Down, Enter, \<open>n\<close>, \<open>a\<close>,
  \<open>c\<close>, \<open>q\<close> and Ctrl-C leaves the cursor unchanged and the menu Browsing, and the
  menu is redrawn with that same cursor, as after every key that does not end the menu.
\<close>

theorem unrecognized_key_redraws:
  assumes "key \<noteq> KEY_UP" "key \<noteq> KEY_DOWN" "key \<noteq> 13" "key \<noteq> 110" "key \<noteq> 97"
    "key \<noteq> 99" "key \<noteq> 113" "key \<noteq> 3"
  shows "key_step entries c key = Continue c
         \<and> step_events entries c key = map Curses (display_menu entries c)
         \<and> step_events entries c key \<noteq> []
         \<and> menu_loop entries c (key # keys)
             = (fst (menu_loop entries c keys),
                map Curses (display_menu entries c) @ snd (menu_loop entries c keys))"
  using assms
  by (simp add: key_step_def step_events_def display_menu_nonempty split: prod.splits)

theorem unrecognized_key_redraws_witness:
  "key_step [profile_a] 0 120 = Continue 0
   \<and> step_events [profile_a] 0 120 = map Curses (display_menu [profile_a] 0)
   \<and> step_events [profile_a] 0 120 \<noteq> []
   \<and> menu_loop [profile_a] 0 (120 # [])
       = (fst (menu_loop [profile_a] 0 []),
          map Curses (display_menu [profile_a] 0) @ snd (menu_loop [profile_a] 0 []))"
  using unrecognized_key_redraws [of 120 "[profile_a]" 0 "[]"]
  by (simp add: KEY_UP_def KEY_DOWN_def display_menu_nonempty)

text \<open>
  Claim C5 as stated fails: the key \<open>x\<close> (120) is none of the keys the menu knows, and
  the pass that reads it redraws the screen.
\<close>

theorem unrecognized_key_counterexample:
  "(120::int) \<notin> {KEY_UP, KEY_DOWN, 13, 110, 97, 99, 113, 3}
   \<and> key_step [profile_a] 0 120 = Continue 0
   \<and> Curses ScrRefresh \<in> set (step_events [profile_a] 0 120)"
  by (simp add: KEY_UP_def KEY_DOWN_def key_step_def step_events_def display_menu_def)

section \<open>The driver\<close>

lemma remove_entry_length:
  "0 \<le> i \<Longrightarrow> i < int (length entries) \<Longrightarrow> Suc (length (remove_entry entries i)) = length entries"
  by (auto simp: remove_entry_def)

text \<open>The three branches that go back to the menu hand it a sound cursor.\<close>

lemma remove_selected_cursor_ok:
  "cursor_ok entries c \<Longrightarrow> remove_selected entries c i = (es', c') \<Longrightarrow> cursor_ok es' c'"
  by (auto simp: cursor_ok_def remove_selected_def remove_entry_def Let_def min_def
      split: if_splits)

lemma add_cursor_ok: "cursor_ok (entries @ [p]) (int (length (entries @ [p])) - 1)"
  by (simp add: cursor_ok_def)

lemma clear_cursor_ok: "cursor_ok [] (- 1)"
  by (simp add: cursor_ok_def)

lemma startup_store_doc:
  "startup (Document (store_doc ps i)) =
     (Inr (entries_doc ps, PInt (if i = - 1 then 0 else i)), curses_setup)"
  by (simp add: startup_def load_entries_def store_doc_def)

text \<open>
  The first cursor of a run: for a stored index that is -1 or an index of the list, the
  menu starts with a sound cursor.
\<close>

lemma first_cursor_ok:
  "i = - 1 \<or> (0 \<le> i \<and> i < int (length ps)) \<Longrightarrow> cursor_ok ps (if i = - 1 then 0 else i)"
  by (cases ps) (auto simp: cursor_ok_def)

lemma entry_field_first:
  "entry_field (entries_doc (p # ps)) (PInt 0) ''ssh_ip'' = Inr (PStr (ssh_ip p))"
  "entry_field (entries_doc (p # ps)) (PInt 0) ''ssh_user'' = Inr (PStr (ssh_user p))"
  "entry_field (entries_doc (p # ps)) (PInt 0) ''ssh_password'' = Inr (PStr (ssh_password p))"
  "entry_field (entries_doc (p # ps)) (PInt 0) ''remote_path'' = Inr (PStr (remote_path p))"
  by (simp_all add: entry_field_def entries_doc_def list_index_def profile_doc_def)

lemma copy_to_empty: "copy_to e filename (entries_doc []) (PInt c) = (Some IndexError, [])"
  by (auto simp: copy_to_def entry_field_def entries_doc_def list_index_def)

text \<open>
  Enter on the empty list in interactive mode: the selection is saved, then
  \<^verbatim>\<open>entries[last_selected_idx]\<close> raises \<^verbatim>\<open>IndexError\<close>, which leaves
  \<^verbatim>\<open>application\<close>. The quiet branch guards the same read with \<^verbatim>\<open>if not entries\<close>.
\<close>

lemma enter_on_empty_list:
  "fst (interactive_loop e filename [] c (13 # keys) lines f) = Uncaught IndexError"
  by (simp add: interactive_loop.simps [of e filename "[]" c "13 # keys"]
        interactive_select_enter copy_to_empty split: prod.splits)

text \<open>
  \<open>c\<close> and one more key in interactive mode: the file then holds what the remove branch
  computed from the list, the index and the cursor.
\<close>

lemma remove_key_saves:
  assumes "config_writable e"
  shows "fst (snd (interactive_loop e filename entries c [99, k] lines f)) =
           Document (store_doc (fst (remove_selected entries c c))
                       (snd (remove_selected entries c c)))"
proof -
  obtain es' c' where r: "remove_selected entries c c = (es', c')"
    by (cases "remove_selected entries c c")
  show ?thesis
    using assms r
    by (simp add: interactive_loop.simps [of e filename entries c "[99, k]"]
        interactive_loop.simps [of e filename es' c' "[]"]
        interactive_select_remove interactive_select_no_keys do_save_writable store_doc_def
        split: prod.splits)
qed

lemma copy_to_no_write:
  assumes "copy_to e filename entries idx = (r, evs)"
  shows "\<not> list_ex is_write evs"
  using assms
  by (auto simp: copy_to_def is_write_def split: sum.splits prod.splits
      dest: send_file_no_write)

lemma startup_no_write: "startup f = (r, evs) \<Longrightarrow> \<not> list_ex is_write evs"
  by (auto simp: startup_def curses_setup_def is_write_def list_ex_iff
      split: prod.splits sum.splits)

lemma quiet_mode_no_write:
  assumes "quiet_mode e filename entries idx = (r, evs)"
  shows "\<not> list_ex is_write evs"
proof (cases "py_not entries")
  case True
  with assms show ?thesis by (auto simp: quiet_mode_def is_write_def)
next
  case False
  obtain r' evs' where c: "copy_to e filename entries idx = (r', evs')"
    by (cases "copy_to e filename entries idx")
  with False assms have "evs = Curses ScrEndWin # evs'" by (auto simp: quiet_mode_def)
  with copy_to_no_write [OF c] show ?thesis by (simp add: is_write_def)
qed

text \<open>
  Claim C7, as the program has it: for an index outside \<open>[0, length - 1]\<close>, negative
  ones included, \<^verbatim>\<open>remove_entry\<close> returns the list it was given and raises nothing.
  The driver still re-clamps \<^verbatim>\<open>last_selected_idx\<close> after it, to -1 on an empty list
  and to \<open>min(last_selected_idx, length - 1)\<close> otherwise; so the index is unchanged
  too when it is -1 on an empty list, or at most \<open>length - 1\<close> on a non-empty one.
\<close>

theorem remove_out_of_range:
  assumes "\<not> (0 \<le> i \<and> i < int (length entries))"
  shows "remove_entry entries i = entries
         \<and> remove_selected entries last_selected_idx i =
             (entries,
              if entries = [] then - 1 else min last_selected_idx (int (length entries) - 1))
         \<and> ((if entries = [] then last_selected_idx = - 1
              else last_selected_idx \<le> int (length entries) - 1)
             \<longrightarrow> remove_selected entries last_selected_idx i = (entries, last_selected_idx))"
  using assms
  by (auto simp: remove_selected_def remove_entry_def Let_def)

theorem remove_out_of_range_witness:
  "\<not> (0 \<le> (- 1 :: int) \<and> - 1 < int (length [profile_a, profile_b]))
   \<and> remove_entry [profile_a, profile_b] (- 1) = [profile_a, profile_b]
   \<and> remove_selected [profile_a, profile_b] 1 (- 1) = ([profile_a, profile_b], 1)
   \<and> \<not> (0 \<le> (2 :: int) \<and> 2 < int (length [profile_a, profile_b]))
   \<and> remove_entry [profile_a, profile_b] 2 = [profile_a, profile_b]
   \<and> remove_selected [profile_a, profile_b] 0 2 = ([profile_a, profile_b], 0)"
  using remove_out_of_range [of "- 1" "[profile_a, profile_b]" 1]
    remove_out_of_range [of 2 "[profile_a, profile_b]" 0]
  by simp

text \<open>
  Claim C7 as stated fails: the index does not always stay. A run on a missing file
  starts with the empty list and the index 0 (the stored -1 made 0); \<open>c\<close> then asks for
  the removal of index 0, which the empty list does not have, and the driver's index
  becomes -1.
\<close>

theorem remove_out_of_range_counterexample:
  "fst (startup Absent) = Inr (PList [], PInt 0)
   \<and> fst (interactive_select [] 0 [99]) = Returned (Remove 0) []
   \<and> \<not> (0 \<le> (0::int) \<and> 0 < int (length ([] :: profile list)))
   \<and> remove_selected ([] :: profile list) 0 0 = ([], - 1)"
  by (simp add: startup_def load_entries_def default_store_def interactive_select_remove
        remove_selected_def remove_entry_def)

text \<open>
  Claim C8: for an index \<open>i\<close> of the list, the remove branch of the driver deletes the
  entry at \<open>i\<close>, so the list is shorter by exactly one, and leaves
  \<^verbatim>\<open>last_selected_idx\<close> at -1 when the list became empty and at
  \<open>min(last_selected_idx, new_length - 1)\<close> otherwise. The new index is at most
  \<open>new_length - 1\<close>, and at least -1 for a store whose index was -1 or more.
\<close>

theorem remove_selected_valid:
  assumes "0 \<le> i" and "i < int (length entries)"
    and "remove_selected entries last_selected_idx i = (entries', last')"
  shows "entries' = take (nat i) entries @ drop (Suc (nat i)) entries
         \<and> Suc (length entries') = length entries
         \<and> last' = (if entries' = [] then - 1
                    else min last_selected_idx (int (length entries') - 1))
         \<and> last' \<le> int (length entries') - 1
         \<and> (- 1 \<le> last_selected_idx \<longrightarrow> - 1 \<le> last')"
proof -
  have es: "entries' = remove_entry entries i"
    using assms(3) by (auto simp: remove_selected_def Let_def)
  have shape: "entries' = take (nat i) entries @ drop (Suc (nat i)) entries"
    using assms(1,2) es by (simp add: remove_entry_def)
  have len: "Suc (length entries') = length entries"
    using assms(1,2) es by (simp add: remove_entry_length)
  have last: "last' = (if entries' = [] then - 1
                       else min last_selected_idx (int (length entries') - 1))"
    using assms(3) es by (auto simp: remove_selected_def Let_def)
  have upper: "last' \<le> int (length entries') - 1"
    using last by (cases entries') (auto simp: min_def)
  have lower: "- 1 \<le> last_selected_idx \<longrightarrow> - 1 \<le> last'"
    using last by (cases entries') (auto simp: min_def)
  from shape len last upper lower show ?thesis by blast
qed

theorem remove_selected_valid_witness:
  "(0::int) \<le> 2 \<and> 2 < int (length [profile_a, profile_b, profile_c]) \<and> (- 1 :: int) \<le> 2
   \<and> remove_selected [profile_a, profile_b, profile_c] 2 2 = ([profile_a, profile_b], 1)
   \<and> [profile_a, profile_b] = take (nat 2) [profile_a, profile_b, profile_c]
        @ drop (Suc (nat 2)) [profile_a, profile_b, profile_c]
   \<and> Suc (length [profile_a, profile_b]) = length [profile_a, profile_b, profile_c]
   \<and> (1::int) = min 2 (int (length [profile_a, profile_b]) - 1)
   \<and> (- 1 :: int) \<le> 1 \<and> (1::int) \<le> int (length [profile_a, profile_b]) - 1"
  using remove_selected_valid [of 2 "[profile_a, profile_b, profile_c]" 2
      "[profile_a, profile_b]" 1]
  by (simp add: remove_selected_def remove_entry_def)

text \<open>
  Claim C9: run with \<^verbatim>\<open>--quiet\<close> on a store with at least one profile and a stored
  index of -1, the driver prints the first profile and calls \<^verbatim>\<open>send_file\<close> with
  the four fields of profile 0; what the run raises and does after that is what
  \<^verbatim>\<open>send_file\<close> raises and does. On a store without profiles (an empty list under any
  index, a missing file, a file that is not JSON) it prints "No connections found", opens
  no session and returns.
\<close>

theorem repeat_last:
  "application_quiet e filename (Document (store_doc (p # ps) (- 1))) =
     (fst (send_file e filename (PStr (ssh_ip p)) (PStr (ssh_user p)) (PStr (ssh_password p))
             (PStr (remote_path p))),
      Document (store_doc (p # ps) (- 1)),
      curses_setup
      @ [Curses ScrEndWin,
         Print (Copying filename (PStr (ssh_ip p)) (PStr (ssh_user p)) (PStr (remote_path p)))]
      @ snd (send_file e filename (PStr (ssh_ip p)) (PStr (ssh_user p)) (PStr (ssh_password p))
               (PStr (remote_path p))))
   \<and> application_quiet e filename (Document (store_doc [] i)) =
       (None, Document (store_doc [] i),
        curses_setup @ [Curses ScrEndWin, Print NoConnections])
   \<and> application_quiet e filename Absent =
       (None, Absent,
        curses_setup @ [Print WarnConfigNotFound, Curses ScrEndWin, Print NoConnections])
   \<and> application_quiet e filename Malformed =
       (None, Malformed,
        curses_setup @ [Print ErrConfigCorrupted, Curses ScrEndWin, Print NoConnections])"
proof (intro conjI)
  show "application_quiet e filename (Document (store_doc (p # ps) (- 1))) =
     (fst (send_file e filename (PStr (ssh_ip p)) (PStr (ssh_user p)) (PStr (ssh_password p))
             (PStr (remote_path p))),
      Document (store_doc (p # ps) (- 1)),
      curses_setup
      @ [Curses ScrEndWin,
         Print (Copying filename (PStr (ssh_ip p)) (PStr (ssh_user p)) (PStr (remote_path p)))]
      @ snd (send_file e filename (PStr (ssh_ip p)) (PStr (ssh_user p)) (PStr (ssh_password p))
               (PStr (remote_path p))))"
    by (simp add: application_quiet_def startup_store_doc quiet_mode_def copy_to_def
          entry_field_first py_not_entries_doc split: prod.splits)
  show "application_quiet e filename (Document (store_doc [] i)) =
       (None, Document (store_doc [] i),
        curses_setup @ [Curses ScrEndWin, Print NoConnections])"
    by (simp add: application_quiet_def startup_store_doc quiet_mode_def py_not_entries_doc)
  show "application_quiet e filename Absent =
       (None, Absent,
        curses_setup @ [Print WarnConfigNotFound, Curses ScrEndWin, Print NoConnections])"
    by (simp add: application_quiet_def startup_def load_entries_def default_store_def
          quiet_mode_def)
  show "application_quiet e filename Malformed =
       (None, Malformed,
        curses_setup @ [Print ErrConfigCorrupted, Curses ScrEndWin, Print NoConnections])"
    by (simp add: application_quiet_def startup_def load_entries_def default_store_def
          quiet_mode_def)
qed

text \<open>
  Claim C10: a run with \<^verbatim>\<open>--quiet\<close> never writes the configuration file. Whatever the
  file holds and whatever the network does, the file afterwards is the file before and
  no event of the run is a write of it; the index 0 that stands in for a stored -1 lives
  in memory only.
\<close>

theorem quiet_never_writes:
  "fst (snd (application_quiet e filename f)) = f
   \<and> \<not> list_ex is_write (snd (snd (application_quiet e filename f)))"
proof -
  obtain sr sevs where s: "startup f = (sr, sevs)" by (cases "startup f")
  have sw: "\<not> list_ex is_write sevs" using s by (rule startup_no_write)
  show ?thesis
  proof (cases sr)
    case (Inl x)
    with s sw show ?thesis by (simp add: application_quiet_def)
  next
    case (Inr pair)
    obtain entries idx where pair: "pair = (entries, idx)" by (cases pair)
    obtain qr qevs where q: "quiet_mode e filename entries idx = (qr, qevs)"
      by (cases "quiet_mode e filename entries idx")
    have "\<not> list_ex is_write qevs" using q by (rule quiet_mode_no_write)
    with s sw Inr pair q show ?thesis by (simp add: application_quiet_def)
  qed
qed

text \<open>
  By contrast the interactive loop does write: leaving the menu with \<open>q\<close> saves the
  list and the index it holds.
\<close>

lemma quit_writes:
  "config_writable e \<Longrightarrow>
     fst (snd (interactive_loop e filename entries c (113 # keys) lines f)) =
       Document (store_doc entries c)"
  by (simp add: interactive_loop.simps [of e filename entries c "113 # keys"]
        interactive_select_def key_step_def KEY_UP_def KEY_DOWN_def do_save_writable
        store_doc_def split: prod.splits)

end
